theory Spec2Isabelle
  imports Main "HOL-Library.Sublist"
begin

section \<open>Strings\<close>

text \<open>
  A JavaScript string is a sequence of code units; \<open>s.length\<close> counts them and
  \<open>s.substring(0, n)\<close> keeps the first \<open>n\<close> of them. Strings are modelled as
  \<^typ>\<open>string\<close>, one \<^typ>\<open>char\<close> per code unit, so the model covers the strings over
  the code units 0 to 255 (Latin-1). On these \<open>toLowerCase\<close> folds \<open>A\<close> to \<open>Z\<close>
  (65 to 90) and the accented capitals U+00C0 to U+00DE except the multiplication sign
  U+00D7 (192 to 222 except 215), each to the code unit 32 above it, and keeps every
  other code unit.
\<close>

definition toLowerChar :: "char \<Rightarrow> char" where
  "toLowerChar c =
     (let n = (of_char c :: nat)
      in if (65 \<le> n \<and> n \<le> 90) \<or> (192 \<le> n \<and> n \<le> 222 \<and> n \<noteq> 215)
         then char_of (n + 32) else c)"

definition toLowerCase :: "string \<Rightarrow> string" where
  "toLowerCase s = map toLowerChar s"

text \<open>\<open>s.includes(t)\<close>: \<open>t\<close> occurs in \<open>s\<close> as a contiguous run, searched from the left.\<close>

fun str_includes :: "string \<Rightarrow> string \<Rightarrow> bool" where
  "str_includes [] t = (t = [])"
| "str_includes (c # s) t = (prefix t (c # s) \<or> str_includes s t)"

section \<open>Data model\<close>

text \<open>
  The structured report as the synthesizer returns it; \<open>created_at\<close> is added by
  \<open>storeBugReport\<close> and \<open>additional_info\<close> by \<open>submitAdditionalInfo\<close>, so both are
  optional.
\<close>

record structured_report =
  title :: string
  suspected_root_cause :: string
  evidence :: "string list"
  next_steps :: "string list"
  created_at :: "string option"
  additional_info :: "(string \<rightharpoonup> string) option"

record follow_up_request =
  type :: string
  question :: string

record more_info =
  needs_more_info :: bool
  confidence :: string
  requests :: "follow_up_request list"

section \<open>Information-sufficiency gate: \<open>checkIfNeedsMoreInfo\<close>\<close>

definition uncertaintyTerms :: "string list" where
  "uncertaintyTerms =
     [''unclear'', ''unknown'', ''uncertain'', ''possible'', ''might'', ''could be'',
      ''not enough information'', ''insufficient'', ''additional details needed'',
      ''vague'', ''ambiguous'', ''sometimes'', ''occasionally'', ''intermittent'']"

definition hasUncertainty :: "structured_report \<Rightarrow> bool" where
  "hasUncertainty reportJson =
     (let rootCause = toLowerCase (suspected_root_cause reportJson)
      in list_ex (\<lambda>term. str_includes rootCause term) uncertaintyTerms)"

definition thinEvidence :: "structured_report \<Rightarrow> bool" where
  "thinEvidence reportJson = (length (evidence reportJson) < 2)"

definition vagueItem :: "string \<Rightarrow> bool" where
  "vagueItem item =
     (length item < 20 \<or> \<not> str_includes item ''/'' \<or>
      (str_includes item ''code'' \<and> \<not> str_includes item '':''))"

definition vagueEvidence :: "structured_report \<Rightarrow> bool" where
  "vagueEvidence reportJson = list_ex vagueItem (evidence reportJson)"

definition asksForMore :: "string \<Rightarrow> bool" where
  "asksForMore step =
     (let lowerStep = toLowerCase step
      in str_includes lowerStep ''provide more'' \<or>
         str_includes lowerStep ''additional info'' \<or>
         str_includes lowerStep ''reproduction steps'' \<or>
         str_includes lowerStep ''more details'' \<or>
         str_includes lowerStep ''clarify'')"

definition requestsMoreInfo :: "structured_report \<Rightarrow> bool" where
  "requestsMoreInfo reportJson = list_ex asksForMore (next_steps reportJson)"

definition mentionsScreenshot :: "string \<Rightarrow> bool" where
  "mentionsScreenshot e = str_includes (toLowerCase e) ''screenshot''"

text \<open>The follow-up list, built by the six conditional \<open>push\<close> calls in their order.\<close>

definition followUps :: "structured_report \<Rightarrow> follow_up_request list" where
  "followUps reportJson =
     (let rootCause = toLowerCase (suspected_root_cause reportJson) in
      (if str_includes rootCause ''reproduce'' \<or> \<not> str_includes rootCause ''steps to'' \<or>
          list_ex (\<lambda>step. str_includes (toLowerCase step) ''reproduce'') (next_steps reportJson)
       then [\<lparr>type = ''reproduction_steps'',
              question = ''Please provide specific steps to reproduce this issue. What were you doing right before the problem occurred?''\<rparr>]
       else []) @
      (if str_includes rootCause ''environment'' \<or> vagueEvidence reportJson \<or>
          list_ex (\<lambda>step. str_includes (toLowerCase step) ''environment'') (next_steps reportJson)
       then [\<lparr>type = ''environment'',
              question = ''What environment are you experiencing this issue in? (browser, OS, device, screen size, etc.)''\<rparr>]
       else []) @
      (if str_includes rootCause ''version'' \<or>
          list_ex (\<lambda>step. str_includes (toLowerCase step) ''version'') (next_steps reportJson)
       then [\<lparr>type = ''version'',
              question = ''What version of the software are you using? Is this a recent change?''\<rparr>]
       else []) @
      (if str_includes (toLowerCase (title reportJson)) ''user'' \<or>
          str_includes (toLowerCase rootCause) ''user''
       then [\<lparr>type = ''user_context'',
              question = ''What were you trying to accomplish when you encountered this bug? What is your user role?''\<rparr>]
       else []) @
      (if str_includes (toLowerCase rootCause) ''data'' \<or>
          list_ex (\<lambda>e. str_includes (toLowerCase e) ''data'') (evidence reportJson)
       then [\<lparr>type = ''data_context'',
              question = ''What kind of data were you working with when the issue occurred? Any specific inputs that trigger the problem?''\<rparr>]
       else []) @
      (if \<not> list_ex mentionsScreenshot (evidence reportJson)
       then [\<lparr>type = ''screenshot'',
              question = ''Could you provide a screenshot or screen recording that shows the issue?''\<rparr>]
       else []))"

definition checkIfNeedsMoreInfo :: "structured_report \<Rightarrow> more_info option" where
  "checkIfNeedsMoreInfo reportJson =
     (let needsMoreInfo = (hasUncertainty reportJson \<or> thinEvidence reportJson \<or>
                           vagueEvidence reportJson \<or> requestsMoreInfo reportJson)
      in if needsMoreInfo
         then Some \<lparr>needs_more_info = True,
                    confidence = (if hasUncertainty reportJson then ''low''
                                  else if vagueEvidence reportJson then ''medium-low''
                                  else ''medium''),
                    requests = followUps reportJson\<rparr>
         else None)"

section \<open>Report synthesizer: \<open>generateBugReport\<close>\<close>

record bug_data =
  description :: string
  logs :: "string option"
  steps :: "string option"
  additionalContext :: "string option"
  screenshots :: "string list"

text \<open>
  The language-model call is outside the program. Its outcome is the argument \<open>ai\<close>:
  \<open>Some r\<close> when a model is configured and its answer parsed to \<open>r\<close>, \<open>None\<close> when no
  model is configured or the call or the parse threw (the inner \<open>catch\<close> falls through
  to the mock report). The code snippets, the logs and the steps only enter the prompt
  of that call. With a description that is a string and snippets that are an object
  nothing else in the body throws, so the outer \<open>catch\<close> with its minimal report is
  not reached.
\<close>

definition generateBugReport :: "bug_data \<Rightarrow> structured_report option \<Rightarrow> structured_report" where
  "generateBugReport bugData ai =
     (case ai of
        Some parsed \<Rightarrow> parsed
      | None \<Rightarrow>
          \<lparr>title = take 50 (description bugData) @
                   (if length (description bugData) > 50 then ''...'' else []),
           suspected_root_cause = ''Unable to generate detailed analysis without AI integration.'',
           evidence =
             [''Reported bug description'',
              ''Available code files (analysis unavailable)'',
              (if length (screenshots bugData) > 0
               then ''Provided screenshots (analysis unavailable)''
               else ''No screenshots provided'')],
           next_steps =
             [''Review the reported description manually'',
              ''Check the relevant files identified in the report'',
              ''Implement proper error handling and validation''],
           created_at = None,
           additional_info = None\<rparr>)"

subsection \<open>The gate's four tests as the specification words them\<close>

text \<open>
  The specification's (a) to (d), written with the library's \<^const>\<open>sublist\<close>
  (\<open>sublist t s\<close>: \<open>s = ps @ t @ ss\<close> for some \<open>ps\<close>, \<open>ss\<close>) and membership in place of
  the program's searches.
\<close>

definition moreInfoPhrases :: "string list" where
  "moreInfoPhrases =
     [''provide more'', ''additional info'', ''reproduction steps'', ''more details'', ''clarify'']"

definition spec_uncertain :: "structured_report \<Rightarrow> bool" where
  "spec_uncertain r =
     (\<exists>t \<in> set uncertaintyTerms. sublist t (toLowerCase (suspected_root_cause r)))"

definition spec_thin :: "structured_report \<Rightarrow> bool" where
  "spec_thin r = (length (evidence r) < 2)"

definition spec_vague :: "structured_report \<Rightarrow> bool" where
  "spec_vague r =
     (\<exists>e \<in> set (evidence r).
        length e < 20 \<or> CHR ''/'' \<notin> set e \<or> (sublist ''code'' e \<and> CHR '':'' \<notin> set e))"

definition spec_asks :: "structured_report \<Rightarrow> bool" where
  "spec_asks r =
     (\<exists>s \<in> set (next_steps r). \<exists>p \<in> set moreInfoPhrases. sublist p (toLowerCase s))"

subsection \<open>Example reports and submissions\<close>

definition report_environment :: structured_report where
  "report_environment =
     \<lparr>title = ''Login fails'',
      suspected_root_cause = ''It might be unclear, possibly an environment issue'',
      evidence =
        [''/src/auth/login.js: handler never awaits the promise'',
         ''/src/api/client.ts: missing retry on 401'',
         ''/src/ui/Form.jsx: submit is bound twice''],
      next_steps = [''Await the promise''],
      created_at = None,
      additional_info = None\<rparr>"

definition report_specific :: structured_report where
  "report_specific =
     \<lparr>title = ''Login fails'',
      suspected_root_cause = ''The click handler is never bound to the login button'',
      evidence =
        [''/src/auth/login.js: handler never awaits the promise'',
         ''/src/ui/Form.jsx: submit is bound twice''],
      next_steps = [''Bind the handler in the constructor''],
      created_at = None,
      additional_info = None\<rparr>"

definition submission_login :: bug_data where
  "submission_login =
     \<lparr>description = ''Login button does nothing on click'',
      logs = None, steps = None, additionalContext = None, screenshots = []\<rparr>"

section \<open>File relevance selector: \<open>searchCodebase\<close>\<close>

text \<open>
  The class \<open>\s\<close> on the code units 0 to 255: tab, line feed, vertical tab, form feed,
  carriage return (9 to 13), space (32) and no-break space (160).
\<close>

definition isSpace :: "char \<Rightarrow> bool" where
  "isSpace c = (let n = (of_char c :: nat) in (9 \<le> n \<and> n \<le> 13) \<or> n = 32 \<or> n = 160)"

text \<open>
  \<open>s.split(/\s+/)\<close>: the pieces between maximal runs of white space. A string that
  starts or ends with white space yields an empty first or last piece, and the empty
  string yields one empty piece.
\<close>

function splitWhitespace :: "string \<Rightarrow> string list" where
  "splitWhitespace [] = [[]]"
| "splitWhitespace (c # cs) =
     (if isSpace c then [] # splitWhitespace (dropWhile isSpace cs)
      else (case splitWhitespace cs of
              [] \<Rightarrow> [[c]]
            | t # ts \<Rightarrow> (c # t) # ts))"
  by pat_completeness auto
termination
  by (relation "measure length") (auto simp: less_Suc_eq_le length_dropWhile_le)

text \<open>The \<open>reduce\<close> over the keywords: one point for each keyword found in the path.\<close>

definition score :: "string list \<Rightarrow> string \<Rightarrow> nat" where
  "score keywords file =
     (let lowerPath = toLowerCase file
      in foldl (\<lambda>sum keyword. sum + (if str_includes lowerPath keyword then 1 else 0))
           0 keywords)"

text \<open>
  \<open>Array.prototype.sort\<close> with a comparator is a stable sort: \<open>a\<close> goes before \<open>b\<close>
  when \<open>compare(a, b) < 0\<close>, and elements that compare equal keep their order. It is
  modelled by insertion from the right, which places an element before the first
  element it does not have to follow.
\<close>

fun insort_cmp :: "('a \<Rightarrow> 'a \<Rightarrow> int) \<Rightarrow> 'a \<Rightarrow> 'a list \<Rightarrow> 'a list" where
  "insort_cmp cmp x [] = [x]"
| "insort_cmp cmp x (y # ys) =
     (if cmp x y \<le> 0 then x # y # ys else y # insort_cmp cmp x ys)"

definition sort_cmp :: "('a \<Rightarrow> 'a \<Rightarrow> int) \<Rightarrow> 'a list \<Rightarrow> 'a list" where
  "sort_cmp cmp xs = foldr (insort_cmp cmp) xs []"

text \<open>The comparator \<open>(a, b) => b.score - a.score\<close> on the pairs \<open>{file, score}\<close>.\<close>

definition byScoreDesc :: "string \<times> nat \<Rightarrow> string \<times> nat \<Rightarrow> int" where
  "byScoreDesc a b = int (snd b) - int (snd a)"

definition keywordMatch :: "string \<Rightarrow> string list \<Rightarrow> string list" where
  "keywordMatch bugReport allFiles =
     (let keywords = splitWhitespace (toLowerCase bugReport);
          scoredFiles = map (\<lambda>file. (file, score keywords file)) allFiles
      in map fst (take 10 (sort_cmp byScoreDesc scoredFiles)))"

text \<open>
  \<open>listing\<close> is the outcome of \<open>fileSystem.listFiles\<close> (\<open>None\<close>: it threw, and the
  outer \<open>catch\<close> returns the empty list). \<open>ai\<close> is the outcome of the model call:
  \<open>Some files\<close> when a model is configured and its answer parsed to an object with
  that \<open>files\<close> array, \<open>None\<close> when no model is configured or the call or the parse
  threw.
\<close>

definition searchCodebase :: "string \<Rightarrow> string list option \<Rightarrow> string list option \<Rightarrow> string list" where
  "searchCodebase bugReport listing ai =
     (case listing of
        None \<Rightarrow> []
      | Some allFiles \<Rightarrow>
          (case ai of
             Some files \<Rightarrow> take 10 files
           | None \<Rightarrow> keywordMatch bugReport allFiles))"

subsection \<open>The keyword-overlap score as the specification words it\<close>

text \<open>
  Splitting on white space, said without an algorithm: \<open>ks\<close> are the keyword tokens of
  \<open>s\<close> when \<open>s\<close> is the first token followed by runs of white space, each run followed
  by the next token; the runs are not empty, no token has a white-space character, and
  only the first and the last token may be empty.
\<close>

definition weave :: "string \<Rightarrow> (string \<times> string) list \<Rightarrow> string" where
  "weave k0 pairs = k0 @ concat (map (\<lambda>(sp, k). sp @ k) pairs)"

definition pairs_ok :: "(string \<times> string) list \<Rightarrow> bool" where
  "pairs_ok pairs =
     ((\<forall>(sp, k) \<in> set pairs.
         sp \<noteq> [] \<and> (\<forall>c \<in> set sp. isSpace c) \<and> (\<forall>c \<in> set k. \<not> isSpace c)) \<and>
      (\<forall>k \<in> set (butlast (map snd pairs)). k \<noteq> []))"

definition spec_split :: "string \<Rightarrow> string list \<Rightarrow> bool" where
  "spec_split s ks =
     (\<exists>k0 pairs.
        ks = k0 # map snd pairs \<and> s = weave k0 pairs \<and>
        (\<forall>c \<in> set k0. \<not> isSpace c) \<and> pairs_ok pairs)"

text \<open>The number of keyword tokens that occur in the lower-cased path.\<close>

definition spec_overlap :: "string list \<Rightarrow> string \<Rightarrow> nat" where
  "spec_overlap ks f = length (filter (\<lambda>k. sublist k (toLowerCase f)) ks)"

definition keywords_login :: "string list" where
  "keywords_login = [''login'', ''button'', ''does'', ''nothing'', ''on'', ''click'']"

definition files_login :: "string list" where
  "files_login =
     [''/app/src/index.js'', ''/app/src/Login.jsx'', ''/app/src/api/client.ts'',
      ''/app/src/ui/Button.tsx'', ''/app/src/ui/LoginButton.tsx'', ''/app/src/App.jsx'',
      ''/app/src/ui/Form.jsx'', ''/app/src/styles/main.css'', ''/app/public/index.html'',
      ''/app/package.json'', ''/app/src/hooks/useClick.ts'', ''/app/src/ui/icon.tsx'']"

section \<open>Markdown renderer: \<open>generateMarkdownReport\<close>\<close>

text \<open>
  The path pattern is
  \<^verbatim>\<open>/([\/\\][^\/\\:]+[\/\\][^\/\\:]+\.(js|jsx|ts|tsx|css|html|json))/\<close>:
  a separator, a run of characters that are neither separator nor colon, a separator,
  a second such run, a dot and an extension. \<open>match\<close> returns the leftmost match; the
  runs are greedy and give characters back, and the extensions are tried in the order
  written.
\<close>

definition isSep :: "char \<Rightarrow> bool" where
  "isSep c = (c = CHR ''/'' \<or> c = CHR 0x5C)"

definition isSeg :: "char \<Rightarrow> bool" where
  "isSeg c = (\<not> isSep c \<and> c \<noteq> CHR '':'')"

definition extensions :: "string list" where
  "extensions = [''js'', ''jsx'', ''ts'', ''tsx'', ''css'', ''html'', ''json'']"

definition matchExt :: "string \<Rightarrow> string option" where
  "matchExt s = find (\<lambda>e. prefix e s) extensions"

text \<open>
  The second run, the dot and the extension, matched at the start of \<open>s\<close>: the run is
  tried with \<open>k\<close> characters, then \<open>k - 1\<close>, down to one.
\<close>

fun matchTail :: "string \<Rightarrow> nat \<Rightarrow> string option" where
  "matchTail s 0 = None"
| "matchTail s (Suc k) =
     (case drop (Suc k) s of
        [] \<Rightarrow> matchTail s k
      | d # rest \<Rightarrow>
          if d = CHR ''.''
          then (case matchExt rest of
                  Some e \<Rightarrow> Some (take (Suc k) s @ ''.'' @ e)
                | None \<Rightarrow> matchTail s k)
          else matchTail s k)"

text \<open>
  The pattern matched at the start of \<open>s\<close>. The first run cannot contain a separator
  and must be followed by one, so only its longest choice can succeed.
\<close>

definition matchAt :: "string \<Rightarrow> string option" where
  "matchAt s =
     (case s of
        [] \<Rightarrow> None
      | c # rest \<Rightarrow>
          if \<not> isSep c then None
          else if takeWhile isSeg rest = [] then None
          else (case dropWhile isSeg rest of
                  [] \<Rightarrow> None
                | d # rest2 \<Rightarrow>
                    if \<not> isSep d then None
                    else (case matchTail rest2 (length (takeWhile isSeg rest2)) of
                            None \<Rightarrow> None
                          | Some m \<Rightarrow> Some (c # takeWhile isSeg rest @ d # m))))"

fun matchPath :: "string \<Rightarrow> string option" where
  "matchPath [] = None"
| "matchPath (c # s) =
     (case matchAt (c # s) of
        Some m \<Rightarrow> Some m
      | None \<Rightarrow> matchPath s)"

text \<open>\<open>filter\<close>, \<open>map\<close> to the match or null, \<open>filter(Boolean)\<close>, as the source chains them.\<close>

definition extractFilePaths :: "string list \<Rightarrow> string list" where
  "extractFilePaths ev =
     map the
       (filter (\<lambda>m. m \<noteq> None)
          (map matchPath
             (filter (\<lambda>item. str_includes item ''/'' \<or> str_includes item [CHR 0x5C]) ev)))"

fun join :: "string \<Rightarrow> string list \<Rightarrow> string" where
  "join sep [] = []"
| "join sep [x] = x"
| "join sep (x # y # ys) = x @ sep @ join sep (y # ys)"

definition newline :: string where
  "newline = [CHR 0x0A]"

definition filesSection :: "string list \<Rightarrow> string" where
  "filesSection filePaths =
     (if length filePaths > 0
      then newline @ ''## Files Involved'' @ newline @
           join newline (map (\<lambda>file. ''- `'' @ file @ ''`'') filePaths) @ newline
      else [])"

definition generateMarkdownReport :: "structured_report \<Rightarrow> string" where
  "generateMarkdownReport reportJson =
     (let filePaths = extractFilePaths (evidence reportJson)
      in ''# Bug Report: '' @ title reportJson @ newline @
         newline @
         ''## Suspected Root Cause'' @ newline @
         suspected_root_cause reportJson @ newline @
         newline @
         ''## Technical Evidence'' @ newline @
         join newline (map (\<lambda>item. ''- '' @ item) (evidence reportJson)) @ newline @
         newline @
         ''## Recommended Next Steps for Developers'' @ newline @
         join newline (map (\<lambda>item. ''- '' @ item) (next_steps reportJson)) @ newline @
         newline @
         filesSection filePaths @ newline @
         newline @
         ''---'' @ newline @
         ''Report generated by Bug Report AI'' @ newline)"

definition report_duplicate :: structured_report where
  "report_duplicate =
     \<lparr>title = ''Login fails'',
      suspected_root_cause = ''The click handler is never bound to the login button'',
      evidence =
        [''/auth/login.js: handler never awaits the promise'',
         ''no file is named here'',
         ''see C:'' @ [CHR 0x5C] @ ''app'' @ [CHR 0x5C] @ ''Form.jsx'',
         ''/auth/login.js: second call site'',
         ''a/b''],
      next_steps = [''Bind the handler in the constructor''],
      created_at = None,
      additional_info = None\<rparr>"

section \<open>Report store\<close>

datatype error = Error string | TypeError string

record linear_issue =
  issue_id :: string
  issue_number :: nat
  issue_url :: string

record user_data =
  email :: "string option"
  name :: "string option"

text \<open>
  A stored record. The fields a record may lack are optional: \<open>storeBugReport\<close> spreads
  the ticket fields only when a ticket is given and the reporter fields, \<open>status\<close> and
  \<open>feedback_requested\<close> only when an email is given; \<open>last_updated\<close> appears with the
  first update. The record's \<open>id\<close>, \<open>title\<close>, \<open>created_at\<close> and \<open>screenshots\<close> are
  \<open>report_id\<close>, \<open>report_title\<close>, \<open>record_created_at\<close> and \<open>record_screenshots\<close> here.
\<close>

record report_record =
  report_id :: string
  report_title :: string
  content_json :: structured_report
  content_markdown :: string
  record_created_at :: string
  linear_issue_id :: "string option"
  linear_issue_number :: "nat option"
  linear_issue_url :: "string option"
  reporter_email :: "string option"
  reporter_name :: "string option"
  status :: "string option"
  feedback_requested :: "bool option"
  files_analyzed :: "string list"
  record_screenshots :: "string list"
  last_updated :: "string option"

text \<open>
  The module state: the remote table \<open>bug_reports\<close> keyed by \<open>id\<close> (\<open>None\<close> when no
  remote client is configured) and the in-process map.
\<close>

record store =
  supabase :: "(string \<rightharpoonup> report_record) option"
  inMemoryReports :: "string \<rightharpoonup> report_record"

text \<open>
  What a call reads from outside: the clock (one reading per call, as ISO text and as
  milliseconds), \<open>Math.floor(Math.random() * 1000)\<close>, and whether the remote read and
  the remote write of this call succeed. A remote call that does not succeed, by
  throwing or by answering with an error, leaves the table as it was.
\<close>

record env =
  now_iso :: string
  now_ms :: nat
  random1000 :: nat
  select_ok :: bool
  write_ok :: bool

text \<open>A number in a template literal: its decimal digits.\<close>

fun showNat :: "nat \<Rightarrow> string" where
  "showNat n =
     (if n < 10 then [char_of (48 + n)]
      else showNat (n div 10) @ [char_of (48 + n mod 10)])"

declare showNat.simps [simp del]

text \<open>Truthiness of an optional string: present and not empty.\<close>

definition truthy :: "string option \<Rightarrow> bool" where
  "truthy x = (case x of None \<Rightarrow> False | Some v \<Rightarrow> v \<noteq> [])"

text \<open>\<open>select('*').eq('id', reportId).single()\<close>: the row, or nothing.\<close>

definition remoteSelect :: "env \<Rightarrow> store \<Rightarrow> string \<Rightarrow> report_record option" where
  "remoteSelect e s reportId =
     (case supabase s of
        None \<Rightarrow> None
      | Some tbl \<Rightarrow> if select_ok e then tbl reportId else None)"

text \<open>
  \<open>insert([row]).select().single()\<close>: the inserted row, or nothing. \<open>id\<close> is taken to be
  the table's key, so a row whose \<open>id\<close> is in the table is not inserted.
\<close>

definition remoteInsert :: "env \<Rightarrow> store \<Rightarrow> report_record \<Rightarrow> report_record option \<times> store" where
  "remoteInsert e s row =
     (case supabase s of
        None \<Rightarrow> (None, s)
      | Some tbl \<Rightarrow>
          if write_ok e \<and> tbl (report_id row) = None
          then (Some row, s\<lparr>supabase := Some (tbl(report_id row \<mapsto> row))\<rparr>)
          else (None, s))"

text \<open>
  \<open>update(fields).eq('id', reportId).select().single()\<close>: the updated row, or nothing
  when there is no such row or the call fails. \<open>f\<close> sets the fields.
\<close>

definition remoteUpdate ::
  "env \<Rightarrow> store \<Rightarrow> string \<Rightarrow> (report_record \<Rightarrow> report_record) \<Rightarrow> report_record option \<times> store" where
  "remoteUpdate e s reportId f =
     (case supabase s of
        None \<Rightarrow> (None, s)
      | Some tbl \<Rightarrow>
          (case tbl reportId of
             None \<Rightarrow> (None, s)
           | Some row \<Rightarrow>
               if write_ok e
               then (Some (f row), s\<lparr>supabase := Some (tbl(reportId \<mapsto> f row))\<rparr>)
               else (None, s)))"

subsection \<open>\<open>storeBugReport\<close>\<close>

text \<open>The object literal \<open>reportData\<close>, with the report already stamped.\<close>

definition reportDataOf ::
  "env \<Rightarrow> structured_report \<Rightarrow> string \<Rightarrow> linear_issue option \<Rightarrow> user_data \<Rightarrow>
   string list \<Rightarrow> string list \<Rightarrow> report_record" where
  "reportDataOf e stamped reportMarkdown linearIssue u filesAnalyzed screenshotUrls =
     \<lparr>report_id = ''report-'' @ showNat (now_ms e) @ ''-'' @ showNat (random1000 e),
      report_title = title stamped,
      content_json = stamped,
      content_markdown = reportMarkdown,
      record_created_at = now_iso e,
      linear_issue_id = map_option issue_id linearIssue,
      linear_issue_number = map_option issue_number linearIssue,
      linear_issue_url = map_option issue_url linearIssue,
      reporter_email = (if truthy (email u) then email u else None),
      reporter_name = (if truthy (email u) \<and> truthy (name u) then name u else None),
      status = (if truthy (email u) then Some ''open'' else None),
      feedback_requested = (if truthy (email u) then Some False else None),
      files_analyzed = filesAnalyzed,
      record_screenshots = screenshotUrls,
      last_updated = None\<rparr>"

text \<open>The object literal \<open>fallbackReport\<close> of the \<open>catch\<close> block.\<close>

definition fallbackReportOf ::
  "env \<Rightarrow> structured_report \<Rightarrow> string \<Rightarrow> string list \<Rightarrow> string list \<Rightarrow> report_record" where
  "fallbackReportOf e stamped reportMarkdown filesAnalyzed screenshotUrls =
     \<lparr>report_id = ''fallback-'' @ showNat (now_ms e),
      report_title = (if title stamped = [] then ''Bug Report'' else title stamped),
      content_json = stamped,
      content_markdown = reportMarkdown,
      record_created_at = now_iso e,
      linear_issue_id = None,
      linear_issue_number = None,
      linear_issue_url = None,
      reporter_email = None,
      reporter_name = None,
      status = None,
      feedback_requested = None,
      files_analyzed = filesAnalyzed,
      record_screenshots = screenshotUrls,
      last_updated = None\<rparr>"

text \<open>
  The \<open>try\<close> block. \<open>reportJson\<close> is \<open>None\<close> for a null or undefined report: setting its
  \<open>created_at\<close> throws at once. \<open>userData\<close> is \<open>None\<close> for a null argument, whose \<open>email\<close>
  cannot be read: that throws after \<open>created_at\<close> has been set on the report. The
  record holds the report object itself; the model holds its value, which is the same
  as long as the caller does not change or store that object again, and
  \<open>analyzeBugReport\<close>, the program's only caller, does neither.
\<close>

definition storeTry ::
  "env \<Rightarrow> store \<Rightarrow> structured_report option \<Rightarrow> string \<Rightarrow> linear_issue option \<Rightarrow>
   user_data option \<Rightarrow> string list \<Rightarrow> string list \<Rightarrow> (error + report_record) \<times> store" where
  "storeTry e s reportJson reportMarkdown linearIssue userData filesAnalyzed screenshotUrls =
     (case reportJson of
        None \<Rightarrow> (Inl (TypeError ''Cannot set properties of null (setting created_at)''), s)
      | Some report \<Rightarrow>
          (let stamped = report\<lparr>created_at := Some (now_iso e)\<rparr> in
           case userData of
             None \<Rightarrow> (Inl (TypeError ''Cannot read properties of null (reading email)''), s)
           | Some u \<Rightarrow>
               (let reportData =
                      reportDataOf e stamped reportMarkdown linearIssue u filesAnalyzed
                        screenshotUrls
                in case remoteInsert e s reportData of
                     (Some data, s') \<Rightarrow> (Inr data, s')
                   | (None, s') \<Rightarrow>
                       (Inr reportData,
                        s'\<lparr>inMemoryReports :=
                             (inMemoryReports s')(report_id reportData \<mapsto> reportData)\<rparr>))))"

text \<open>
  The whole function. The \<open>catch\<close> block builds the minimal record and stores it in
  memory; it reads the report's \<open>title\<close>, so with a null or undefined report the \<open>catch\<close>
  block throws in its turn and the call raises.
\<close>

definition storeBugReport ::
  "env \<Rightarrow> store \<Rightarrow> structured_report option \<Rightarrow> string \<Rightarrow> linear_issue option \<Rightarrow>
   user_data option \<Rightarrow> string list \<Rightarrow> string list \<Rightarrow> (error + report_record) \<times> store" where
  "storeBugReport e s reportJson reportMarkdown linearIssue userData filesAnalyzed screenshotUrls =
     (case storeTry e s reportJson reportMarkdown linearIssue userData filesAnalyzed screenshotUrls of
        (Inr stored, s') \<Rightarrow> (Inr stored, s')
      | (Inl err, s') \<Rightarrow>
          (case reportJson of
             None \<Rightarrow> (Inl (TypeError ''Cannot read properties of null (reading title)''), s')
           | Some report \<Rightarrow>
               (let stamped = report\<lparr>created_at := Some (now_iso e)\<rparr>;
                    fallbackReport =
                      fallbackReportOf e stamped reportMarkdown filesAnalyzed screenshotUrls
                in (Inr fallbackReport,
                    s'\<lparr>inMemoryReports :=
                         (inMemoryReports s')(report_id fallbackReport \<mapsto> fallbackReport)\<rparr>))))"

subsection \<open>\<open>getBugReport\<close>\<close>

definition getBugReport :: "env \<Rightarrow> store \<Rightarrow> string \<Rightarrow> (error + report_record) \<times> store" where
  "getBugReport e s reportId =
     (if reportId = [] then (Inl (Error ''Bug report ID is required''), s)
      else (case remoteSelect e s reportId of
              Some data \<Rightarrow> (Inr data, s)
            | None \<Rightarrow>
                (case inMemoryReports s reportId of
                   Some r \<Rightarrow> (Inr r, s)
                 | None \<Rightarrow> (Inl (Error ''Bug report not found''), s))))"

subsection \<open>\<open>confirmBugReport\<close>\<close>

record confirm_result =
  confirm_id :: string
  report_json :: structured_report
  report_markdown :: string
  confirm_files_analyzed :: "string list"
  confirm_screenshots :: "string list"
  linear_issue :: "linear_issue option"
  timestamp :: string
  confirmed :: bool

text \<open>
  \<open>ticket\<close> is the outcome of \<open>createLinearIssue\<close>, which catches its own errors and
  answers null when the tracker is not configured or fails. The remote update sets the
  ticket fields only when there is a ticket; the in-memory update always sets them.
\<close>

definition confirmBugReport ::
  "env \<Rightarrow> linear_issue option \<Rightarrow> store \<Rightarrow> string \<Rightarrow> (error + confirm_result) \<times> store" where
  "confirmBugReport e ticket s reportId =
     (if reportId = [] then (Inl (Error ''Report ID is required''), s)
      else
        (let found = (case remoteSelect e s reportId of
                        Some data \<Rightarrow> Some data
                      | None \<Rightarrow> inMemoryReports s reportId)
         in case found of
              None \<Rightarrow> (Inl (Error ''Bug report not found''), s)
            | Some reportData \<Rightarrow>
                (let linearIssue = ticket;
                     (updatedReport, s1) =
                       remoteUpdate e s reportId
                         (\<lambda>row. (case linearIssue of
                                    None \<Rightarrow> row
                                  | Some li \<Rightarrow>
                                      row\<lparr>linear_issue_id := Some (issue_id li),
                                          linear_issue_number := Some (issue_number li),
                                          linear_issue_url := Some (issue_url li)\<rparr>)
                                 \<lparr>status := Some ''confirmed'',
                                  last_updated := Some (now_iso e)\<rparr>);
                     s2 = (case (updatedReport, inMemoryReports s1 reportId) of
                             (None, Some report) \<Rightarrow>
                               s1\<lparr>inMemoryReports := (inMemoryReports s1)
                                    (reportId \<mapsto>
                                       report\<lparr>linear_issue_id := map_option issue_id linearIssue,
                                              linear_issue_number := map_option issue_number linearIssue,
                                              linear_issue_url := map_option issue_url linearIssue,
                                              status := Some ''confirmed'',
                                              last_updated := Some (now_iso e)\<rparr>)\<rparr>
                           | _ \<Rightarrow> s1)
                 in (Inr \<lparr>confirm_id = reportId,
                          report_json = content_json reportData,
                          report_markdown = content_markdown reportData,
                          confirm_files_analyzed = files_analyzed reportData,
                          confirm_screenshots = record_screenshots reportData,
                          linear_issue = linearIssue,
                          timestamp = now_iso e,
                          confirmed = True\<rparr>,
                     s2))))"

subsection \<open>\<open>submitAdditionalInfo\<close>\<close>

record submit_result =
  message :: string
  submit_id :: string

text \<open>
  \<open>{...old || {}, ...responses, submitted_at: now}\<close>: the old entries, overwritten by
  the responses in their order, overwritten by the time stamp.
\<close>

definition mergeInfo ::
  "(string \<rightharpoonup> string) option \<Rightarrow> (string \<times> string) list \<Rightarrow> string \<Rightarrow> (string \<rightharpoonup> string)" where
  "mergeInfo old responses now =
     (fold (\<lambda>(k, v) m. m(k \<mapsto> v)) responses (case old of None \<Rightarrow> Map.empty | Some m \<Rightarrow> m))
       (''submitted_at'' \<mapsto> now)"

definition updatedContentJson ::
  "env \<Rightarrow> (string \<times> string) list \<Rightarrow> report_record \<Rightarrow> structured_report" where
  "updatedContentJson e responses reportData =
     (content_json reportData)
       \<lparr>additional_info :=
          Some (mergeInfo (additional_info (content_json reportData)) responses (now_iso e))\<rparr>"

text \<open>
  The remote update sets \<open>content_json\<close>, \<open>feedback_requested\<close> and \<open>last_updated\<close> of the
  row; the in-memory update spreads the record read and sets the same three fields.
  The comment sent to the tracker at the end does not touch the store and its errors
  are caught; it is left out.
\<close>

definition submitAdditionalInfo ::
  "env \<Rightarrow> store \<Rightarrow> string \<Rightarrow> (string \<times> string) list \<Rightarrow> (error + submit_result) \<times> store" where
  "submitAdditionalInfo e s reportId responses =
     (if reportId = [] then (Inl (Error ''Bug report ID is required''), s)
      else if responses = [] then (Inl (Error ''Additional information is required''), s)
      else
        (let (remoteData, updatedRemote, s1) =
               (case remoteSelect e s reportId of
                  None \<Rightarrow> (None, None, s)
                | Some data \<Rightarrow>
                    (let (updatedData, s') =
                           remoteUpdate e s reportId
                             (\<lambda>row. row\<lparr>content_json := updatedContentJson e responses data,
                                        feedback_requested := Some False,
                                        last_updated := Some (now_iso e)\<rparr>)
                     in (Some data, updatedData, s')));
             found = (case remoteData of
                        Some data \<Rightarrow> Some data
                      | None \<Rightarrow> inMemoryReports s1 reportId)
         in case found of
              None \<Rightarrow> (Inl (Error ''Bug report not found''), s1)
            | Some reportData \<Rightarrow>
                (case updatedRemote of
                   Some updatedReport \<Rightarrow>
                     (Inr \<lparr>message = ''Additional information submitted successfully'',
                           submit_id = report_id updatedReport\<rparr>,
                      s1)
                 | None \<Rightarrow>
                     (let updatedReport =
                            reportData\<lparr>content_json := updatedContentJson e responses reportData,
                                       feedback_requested := Some False,
                                       last_updated := Some (now_iso e)\<rparr>
                      in (Inr \<lparr>message = ''Additional information submitted successfully'',
                                submit_id = report_id updatedReport\<rparr>,
                          s1\<lparr>inMemoryReports := (inMemoryReports s1)(reportId \<mapsto> updatedReport)\<rparr>)))))"

subsection \<open>What a reader sees, and example states\<close>

text \<open>The record \<open>getBugReport\<close> answers with when the remote read succeeds.\<close>

definition currentReport :: "store \<Rightarrow> string \<Rightarrow> report_record option" where
  "currentReport s reportId =
     (case supabase s of
        None \<Rightarrow> inMemoryReports s reportId
      | Some tbl \<Rightarrow>
          (case tbl reportId of
             Some row \<Rightarrow> Some row
           | None \<Rightarrow> inMemoryReports s reportId))"

definition persisted :: "store \<Rightarrow> report_record \<Rightarrow> bool" where
  "persisted s r =
     (inMemoryReports s (report_id r) = Some r \<or>
      (case supabase s of None \<Rightarrow> False | Some tbl \<Rightarrow> tbl (report_id r) = Some r))"

definition store_empty :: store where
  "store_empty = \<lparr>supabase = None, inMemoryReports = Map.empty\<rparr>"

definition store_remote_empty :: store where
  "store_remote_empty = \<lparr>supabase = Some Map.empty, inMemoryReports = Map.empty\<rparr>"

definition env_up :: env where
  "env_up =
     \<lparr>now_iso = ''2024-05-01T10:00:00.000Z'', now_ms = 1714557600000, random1000 = 42,
      select_ok = True, write_ok = True\<rparr>"

definition env_down :: env where
  "env_down =
     \<lparr>now_iso = ''2024-05-01T10:05:00.000Z'', now_ms = 1714557900000, random1000 = 7,
      select_ok = False, write_ok = False\<rparr>"

definition reporter :: user_data where
  "reporter = \<lparr>email = Some ''sam@example.org'', name = None\<rparr>"

definition anonymous :: user_data where
  "anonymous = \<lparr>email = None, name = None\<rparr>"

text \<open>The record a submission writes back, from the record it read.\<close>

definition withInfo :: "env \<Rightarrow> (string \<times> string) list \<Rightarrow> report_record \<Rightarrow> report_record" where
  "withInfo e responses reportData =
     reportData\<lparr>content_json := updatedContentJson e responses reportData,
                feedback_requested := Some False,
                last_updated := Some (now_iso e)\<rparr>"


definition record_login :: report_record where
  "record_login =
     reportDataOf env_up (report_specific\<lparr>created_at := Some (now_iso env_up)\<rparr>)
       (generateMarkdownReport report_specific) None reporter [] []"

text \<open>The state after one report has been stored with no remote store configured.\<close>

definition store_one :: store where
  "store_one =
     snd (storeBugReport env_up store_empty (Some report_specific)
            (generateMarkdownReport report_specific) None (Some reporter) [] [])"



text \<open>The same report held by a configured remote store, and a call whose remote write fails.\<close>

definition store_remote_one :: store where
  "store_remote_one =
     \<lparr>supabase = Some [report_id record_login \<mapsto> record_login],
      inMemoryReports = Map.empty\<rparr>"

definition env_write_fails :: env where
  "env_write_fails =
     \<lparr>now_iso = ''2024-05-01T10:02:00.000Z'', now_ms = 1714557720000, random1000 = 99,
      select_ok = True, write_ok = False\<rparr>"

text \<open>
  The record a call reads (the remote row when the remote read gives one, else the
  in-process entry) and the row of the remote table, if any.
\<close>

definition recordRead :: "env \<Rightarrow> store \<Rightarrow> string \<Rightarrow> report_record option" where
  "recordRead e s reportId =
     (case remoteSelect e s reportId of
        Some data \<Rightarrow> Some data
      | None \<Rightarrow> inMemoryReports s reportId)"

definition remoteRow :: "store \<Rightarrow> string \<Rightarrow> report_record option" where
  "remoteRow s rid = (case supabase s of None \<Rightarrow> None | Some tbl \<Rightarrow> tbl rid)"

text \<open>
  Three calls whose remote write fails, on the report held by the remote store: a
  submission, then a confirmation, then a second submission.
\<close>

definition store_after_submit :: store where
  "store_after_submit =
     snd (submitAdditionalInfo env_write_fails store_remote_one (report_id record_login)
            [(''environment'', ''Firefox on Linux'')])"

definition store_after_confirm :: store where
  "store_after_confirm =
     snd (confirmBugReport env_write_fails None store_after_submit (report_id record_login))"

definition store_after_resubmit :: store where
  "store_after_resubmit =
     snd (submitAdditionalInfo env_write_fails store_after_confirm (report_id record_login)
            [(''version'', ''2.1'')])"

section \<open>Properties of the string operations\<close>

lemma str_includes_sublist: "str_includes s t \<longleftrightarrow> sublist t s"
  by (induction s) (auto simp: sublist_Cons_right)

lemma str_includes_char: "str_includes s [c] \<longleftrightarrow> c \<in> set s"
  by (induction s) auto

section \<open>Properties of the gate\<close>

lemma hasUncertainty_spec: "hasUncertainty r = spec_uncertain r"
  by (simp add: hasUncertainty_def spec_uncertain_def list_ex_iff str_includes_sublist)

lemma vagueItem_spec:
  "vagueItem e \<longleftrightarrow>
     length e < 20 \<or> CHR ''/'' \<notin> set e \<or> (sublist ''code'' e \<and> CHR '':'' \<notin> set e)"
  unfolding vagueItem_def str_includes_char by (simp add: str_includes_sublist)

lemma vagueEvidence_spec: "vagueEvidence r = spec_vague r"
  by (simp add: vagueEvidence_def spec_vague_def list_ex_iff vagueItem_spec)

lemma asksForMore_spec:
  "asksForMore s \<longleftrightarrow> (\<exists>p \<in> set moreInfoPhrases. sublist p (toLowerCase s))"
  by (simp add: asksForMore_def Let_def moreInfoPhrases_def str_includes_sublist)

lemma requestsMoreInfo_spec: "requestsMoreInfo r = spec_asks r"
  by (simp add: requestsMoreInfo_def spec_asks_def list_ex_iff asksForMore_spec)

text \<open>
  C1. The gate returns null exactly when none of (a) uncertain root cause, (b) fewer
  than two evidence entries, (c) a vague evidence entry, (d) a next step asking for
  more holds; a non-null answer has \<open>needs_more_info\<close> set, and its confidence is
  \<open>low\<close> if (a) holds, else \<open>medium-low\<close> if (c) holds, else \<open>medium\<close>.
\<close>

theorem gate_four_tests:
  "(checkIfNeedsMoreInfo r = None \<longleftrightarrow>
      \<not> (spec_uncertain r \<or> spec_thin r \<or> spec_vague r \<or> spec_asks r)) \<and>
   (\<forall>res. checkIfNeedsMoreInfo r = Some res \<longrightarrow>
      needs_more_info res = (spec_uncertain r \<or> spec_thin r \<or> spec_vague r \<or> spec_asks r) \<and>
      confidence res =
        (if spec_uncertain r then ''low''
         else if spec_vague r then ''medium-low'' else ''medium''))"
  unfolding hasUncertainty_spec [symmetric] vagueEvidence_spec [symmetric]
    requestsMoreInfo_spec [symmetric] spec_thin_def thinEvidence_def [symmetric]
  by (auto simp: checkIfNeedsMoreInfo_def)

lemma gate_report_environment:
  "checkIfNeedsMoreInfo report_environment =
     Some \<lparr>needs_more_info = True, confidence = ''low'',
           requests = followUps report_environment\<rparr>"
  by code_simp

lemma gate_report_specific: "checkIfNeedsMoreInfo report_specific = None"
  by code_simp

theorem gate_four_tests_witness:
  "(spec_uncertain report_environment \<or> spec_thin report_environment \<or>
    spec_vague report_environment \<or> spec_asks report_environment) \<and>
   spec_uncertain report_environment \<and>
   confidence (the (checkIfNeedsMoreInfo report_environment)) = ''low'' \<and>
   \<not> (spec_uncertain report_specific \<or> spec_thin report_specific \<or>
      spec_vague report_specific \<or> spec_asks report_specific)"
proof -
  have unc: "spec_uncertain report_environment"
    unfolding hasUncertainty_spec [symmetric] by code_simp
  show ?thesis
    using gate_four_tests [of report_environment] gate_four_tests [of report_specific]
      unc gate_report_environment gate_report_specific
    by simp
qed

lemma screenshot_followUps:
  "(\<exists>q \<in> set (followUps r). type q = ''screenshot'') \<longleftrightarrow>
     \<not> list_ex mentionsScreenshot (evidence r)"
  unfolding followUps_def Let_def set_append bex_Un
  by (simp split: if_splits)

lemma requests_followUps: "checkIfNeedsMoreInfo r = Some res \<Longrightarrow> requests res = followUps r"
  by (auto simp: checkIfNeedsMoreInfo_def split: if_splits)

text \<open>
  C4. The gate is a total function of the report: it answers null, or a follow-up list
  that has an entry of type \<open>screenshot\<close> exactly when no evidence string, lower-cased,
  contains \<open>screenshot\<close>.
\<close>

theorem gate_screenshot_request:
  "checkIfNeedsMoreInfo r = None \<or>
   (\<exists>res. checkIfNeedsMoreInfo r = Some res \<and>
      ((\<exists>q \<in> set (requests res). type q = ''screenshot'') \<longleftrightarrow>
       \<not> (\<exists>e \<in> set (evidence r). sublist ''screenshot'' (toLowerCase e))))"
proof (cases "checkIfNeedsMoreInfo r")
  case None
  then show ?thesis by simp
next
  case (Some res)
  then show ?thesis
    using screenshot_followUps [of r] requests_followUps [OF Some]
    by (simp add: list_ex_iff mentionsScreenshot_def str_includes_sublist)
qed

theorem gate_screenshot_request_witness:
  "checkIfNeedsMoreInfo report_environment \<noteq> None \<and>
   (\<exists>q \<in> set (requests (the (checkIfNeedsMoreInfo report_environment))).
      type q = ''screenshot'') \<and>
   \<not> (\<exists>e \<in> set (evidence report_environment). sublist ''screenshot'' (toLowerCase e))"
proof -
  have "\<exists>q \<in> set (followUps report_environment). type q = ''screenshot''"
    unfolding screenshot_followUps by code_simp
  then show ?thesis
    using gate_screenshot_request [of report_environment] gate_report_environment
    by simp
qed

section \<open>Properties of the synthesizer's fallback\<close>

lemma mentions_provided: "mentionsScreenshot ''Provided screenshots (analysis unavailable)''"
  by code_simp

lemma mentions_none_provided: "mentionsScreenshot ''No screenshots provided''"
  by code_simp

lemma vague_reported: "vagueItem ''Reported bug description''"
  by code_simp

text \<open>
  C3, as the code has it. Without a model answer the report has the first 50
  characters of the description as title, followed by \<open>...\<close> exactly when the
  description is longer than 50 characters, a fixed root-cause sentence, three evidence
  strings of which the third is one of two fixed strings chosen by whether screenshots
  were supplied (both of them mention screenshots), and three fixed next steps.
\<close>

theorem fallback_report_shape:
  "title (generateBugReport bd None) =
     take 50 (description bd) @ (if 50 < length (description bd) then ''...'' else []) \<and>
   suspected_root_cause (generateBugReport bd None) =
     ''Unable to generate detailed analysis without AI integration.'' \<and>
   evidence (generateBugReport bd None) =
     [''Reported bug description'', ''Available code files (analysis unavailable)'',
      if screenshots bd = [] then ''No screenshots provided''
      else ''Provided screenshots (analysis unavailable)''] \<and>
   mentionsScreenshot (evidence (generateBugReport bd None) ! 2) \<and>
   next_steps (generateBugReport bd None) =
     [''Review the reported description manually'',
      ''Check the relevant files identified in the report'',
      ''Implement proper error handling and validation'']"
  by (simp add: generateBugReport_def mentions_provided mentions_none_provided)

theorem fallback_report_shape_witness:
  "title (generateBugReport submission_login None) = ''Login button does nothing on click'' \<and>
   evidence (generateBugReport submission_login None) ! 2 = ''No screenshots provided''"
  using fallback_report_shape [of submission_login]
  by (simp add: submission_login_def)

text \<open>
  The claim C3 as worded fails: with no screenshots supplied the third evidence string
  still mentions screenshots.
\<close>

theorem fallback_mentions_screenshots_counterexample:
  "screenshots submission_login = [] \<and>
   mentionsScreenshot (evidence (generateBugReport submission_login None) ! 2)"
  by (simp add: generateBugReport_def submission_login_def mentions_none_provided)

text \<open>
  C10. Without a model answer the report always has an evidence entry that, lower-cased,
  contains \<open>screenshot\<close>; the gate answers such a report with a follow-up list, and
  that list has no entry of type \<open>screenshot\<close>.
\<close>

theorem fallback_never_asks_screenshot:
  "list_ex mentionsScreenshot (evidence (generateBugReport bd None)) \<and>
   (\<exists>res. checkIfNeedsMoreInfo (generateBugReport bd None) = Some res \<and>
      \<not> (\<exists>q \<in> set (requests res). type q = ''screenshot''))"
proof -
  let ?r = "generateBugReport bd None"
  have ev: "list_ex mentionsScreenshot (evidence ?r)"
    by (simp add: generateBugReport_def mentions_provided mentions_none_provided)
  have "vagueEvidence ?r"
    by (simp add: generateBugReport_def vagueEvidence_def vague_reported)
  then obtain res where res: "checkIfNeedsMoreInfo ?r = Some res"
    by (simp add: checkIfNeedsMoreInfo_def)
  show ?thesis
    using ev res requests_followUps [OF res] screenshot_followUps [of ?r] by simp
qed

theorem fallback_never_asks_screenshot_witness:
  "map type (requests (the (checkIfNeedsMoreInfo (generateBugReport submission_login None)))) =
     [''reproduction_steps'', ''environment'']"
proof -
  have "map type (followUps (generateBugReport submission_login None)) =
          [''reproduction_steps'', ''environment'']"
    by code_simp
  moreover obtain res
    where res: "checkIfNeedsMoreInfo (generateBugReport submission_login None) = Some res"
    using fallback_never_asks_screenshot [of submission_login] by blast
  ultimately show ?thesis
    using requests_followUps [OF res] by (simp add: res)
qed

section \<open>Properties of the selector's keyword path\<close>

lemma foldl_count:
  "foldl (\<lambda>sum k. sum + (if P k then 1 else 0)) a ks = a + length (filter P ks)"
  by (induction ks arbitrary: a) auto

lemma score_spec: "score ks f = spec_overlap ks f"
  by (simp add: score_def spec_overlap_def foldl_count str_includes_sublist)

subsection \<open>The program's split is the one the specification describes\<close>

lemma split_prepend:
  "\<forall>c \<in> set k0. \<not> isSpace c \<Longrightarrow> splitWhitespace t = x # xs \<Longrightarrow>
   splitWhitespace (k0 @ t) = (k0 @ x) # xs"
  by (induction k0) auto

lemma pairs_ok_Cons:
  "pairs_ok ((sp, k) # ps) \<Longrightarrow>
   sp \<noteq> [] \<and> (\<forall>c \<in> set sp. isSpace c) \<and> (\<forall>c \<in> set k. \<not> isSpace c) \<and>
   (ps \<noteq> [] \<longrightarrow> k \<noteq> []) \<and> pairs_ok ps"
  by (auto simp: pairs_ok_def split: if_splits)

lemma dropWhile_spaces:
  "\<forall>c \<in> set sp. isSpace c \<Longrightarrow> \<forall>c \<in> set k. \<not> isSpace c \<Longrightarrow> k \<noteq> [] \<or> rest = [] \<Longrightarrow>
   dropWhile isSpace (sp @ k @ rest) = k @ rest"
  by (cases k) (auto simp: dropWhile_append)

lemma split_pairs:
  "pairs_ok pairs \<Longrightarrow>
   splitWhitespace (concat (map (\<lambda>(sp, k). sp @ k) pairs)) = [] # map snd pairs"
proof (induction pairs)
  case Nil
  show ?case by simp
next
  case (Cons p ps)
  obtain sp k where p: "p = (sp, k)" by (cases p)
  from Cons.prems p have ok: "sp \<noteq> []" "\<forall>c \<in> set sp. isSpace c" "\<forall>c \<in> set k. \<not> isSpace c"
    "ps \<noteq> [] \<longrightarrow> k \<noteq> []" "pairs_ok ps"
    using pairs_ok_Cons by blast+
  let ?rest = "concat (map (\<lambda>(sp, k). sp @ k) ps)"
  from ok(1) obtain c sp' where sp: "sp = c # sp'" by (cases sp) auto
  have rest: "k \<noteq> [] \<or> ?rest = []" using ok(4) by auto
  have "dropWhile isSpace (sp' @ k @ ?rest) = k @ ?rest"
    using ok(2,3) rest sp by (intro dropWhile_spaces) auto
  moreover have "splitWhitespace (k @ ?rest) = (k @ []) # map snd ps"
    using ok(3) Cons.IH [OF ok(5)] by (rule split_prepend)
  ultimately show ?case using ok(2) sp p by simp
qed

lemma split_weave:
  "\<forall>c \<in> set k0. \<not> isSpace c \<Longrightarrow> pairs_ok pairs \<Longrightarrow>
   splitWhitespace (weave k0 pairs) = k0 # map snd pairs"
  using split_prepend [OF _ split_pairs, of k0 pairs] by (simp add: weave_def)

text \<open>At most one token list fits the description, the one the program computes.\<close>

lemma spec_split_unique: "spec_split s ks \<Longrightarrow> ks = splitWhitespace s"
  unfolding spec_split_def by (auto simp: split_weave)

lemma spec_split_Cons_nonspace:
  "\<not> isSpace c \<Longrightarrow> spec_split cs (t # ts) \<Longrightarrow> spec_split (c # cs) ((c # t) # ts)"
  unfolding spec_split_def
  apply (elim exE conjE)
  subgoal for k0 pairs
    by (rule exI [of _ "c # k0"], rule exI [of _ pairs]) (auto simp: weave_def)
  done

lemma spec_split_space:
  assumes "isSpace c" "spec_split (dropWhile isSpace cs) ks"
  shows "spec_split (c # cs) ([] # ks)"
proof -
  from assms(2) obtain k0 pairs where kp: "ks = k0 # map snd pairs"
    "dropWhile isSpace cs = weave k0 pairs" "\<forall>c \<in> set k0. \<not> isSpace c"
    "\<forall>(sp, k) \<in> set pairs.
           sp \<noteq> [] \<and> (\<forall>c \<in> set sp. isSpace c) \<and> (\<forall>c \<in> set k. \<not> isSpace c)"
    "\<forall>k \<in> set (butlast (map snd pairs)). k \<noteq> []"
    unfolding spec_split_def pairs_ok_def by blast
  let ?sp = "c # takeWhile isSpace cs"
  let ?pairs = "(?sp, k0) # pairs"
  have "c # cs = weave [] ?pairs"
    using kp(2) by (simp add: weave_def) (metis takeWhile_dropWhile_id weave_def)
  moreover have "pairs \<noteq> [] \<longrightarrow> k0 \<noteq> []"
  proof (intro impI notI)
    assume ne: "pairs \<noteq> []" and "k0 = []"
    then obtain sp k ps where "pairs = (sp, k) # ps" by (cases pairs) auto
    with kp(4) obtain d sp' where "sp = d # sp'" "isSpace d" by (cases sp) auto
    with \<open>pairs = (sp, k) # ps\<close> \<open>k0 = []\<close> kp(2)
    have "dropWhile isSpace cs = d # sp' @ k @ concat (map (\<lambda>(sp, k). sp @ k) ps)"
      by (simp add: weave_def)
    then have "\<not> isSpace d" by (metis hd_dropWhile list.sel(1) list.distinct(1))
    with \<open>isSpace d\<close> show False by simp
  qed
  then have "\<forall>k \<in> set (butlast (map snd ?pairs)). k \<noteq> []"
    using kp(5) by auto
  moreover have "\<forall>(sp, k) \<in> set ?pairs.
           sp \<noteq> [] \<and> (\<forall>c \<in> set sp. isSpace c) \<and> (\<forall>c \<in> set k. \<not> isSpace c)"
    using kp(3,4) assms(1) by (auto dest: set_takeWhileD)
  ultimately show ?thesis
    unfolding spec_split_def pairs_ok_def using kp(1)
    by (intro exI [of _ "[]"] exI [of _ ?pairs]) simp
qed

text \<open>Every string has such a token list.\<close>

lemma spec_split_exists: "spec_split s (splitWhitespace s)"
proof (induction s rule: splitWhitespace.induct)
  case 1
  show ?case by (simp add: spec_split_def weave_def pairs_ok_def)
next
  case (2 c cs)
  show ?case
  proof (cases "isSpace c")
    case True
    with 2 show ?thesis by (simp add: spec_split_space)
  next
    case False
    with 2 have ih: "spec_split cs (splitWhitespace cs)" by simp
    then obtain t ts where "splitWhitespace cs = t # ts"
      by (auto simp: spec_split_def)
    with ih False show ?thesis by (simp add: spec_split_Cons_nonspace)
  qed
qed

subsection \<open>The comparator sort\<close>

lemma set_insort_cmp: "set (insort_cmp cmp x ys) = insert x (set ys)"
  by (induction ys) auto

lemma set_sort_cmp: "set (sort_cmp cmp xs) = set xs"
  by (induction xs) (auto simp: sort_cmp_def set_insort_cmp)

lemma desc_insort:
  "sorted_wrt (\<lambda>a b. snd b \<le> snd a) ys \<Longrightarrow>
   sorted_wrt (\<lambda>a b. snd b \<le> snd a) (insort_cmp byScoreDesc x ys)"
  by (induction ys) (auto simp: byScoreDesc_def set_insort_cmp)

lemma desc_sort: "sorted_wrt (\<lambda>a b. snd b \<le> snd a) (sort_cmp byScoreDesc xs)"
  by (induction xs) (auto simp: sort_cmp_def desc_insort)

text \<open>Insertion into a descending list puts the new pair in front of its ties.\<close>

lemma filter_insort_cmp:
  "sorted_wrt (\<lambda>a b. snd b \<le> snd a) ys \<Longrightarrow>
   filter (\<lambda>p. snd p = n) (insort_cmp byScoreDesc x ys) =
     (if snd x = n then x # filter (\<lambda>p. snd p = n) ys else filter (\<lambda>p. snd p = n) ys)"
  by (induction ys) (auto simp: byScoreDesc_def filter_empty_conv)

lemma filter_sort_cmp:
  "filter (\<lambda>p. snd p = n) (sort_cmp byScoreDesc xs) = filter (\<lambda>p. snd p = n) xs"
proof (induction xs)
  case Nil
  show ?case by (simp add: sort_cmp_def)
next
  case (Cons x xs)
  have "sort_cmp byScoreDesc (x # xs) = insort_cmp byScoreDesc x (sort_cmp byScoreDesc xs)"
    by (simp add: sort_cmp_def)
  then show ?case
    using Cons desc_sort [of xs] by (simp add: filter_insort_cmp)
qed

lemma prefix_filter_take: "prefix (filter P (take k xs)) (filter P xs)"
proof -
  have "filter P xs = filter P (take k xs) @ filter P (drop k xs)"
    by (metis append_take_drop_id filter_append)
  then show ?thesis by (simp add: prefix_def)
qed

lemma keywordMatch_scored:
  "spec_split (toLowerCase D) ks \<Longrightarrow>
   keywordMatch D F =
     map fst (take 10 (sort_cmp byScoreDesc (map (\<lambda>f. (f, spec_overlap ks f)) F)))"
  by (simp add: keywordMatch_def score_spec spec_split_unique [symmetric])

text \<open>
  C2. The lower-cased description has a list of white-space-split keyword tokens, and
  only one. With the file list \<open>F\<close> and no model answer, \<open>searchCodebase\<close> returns at most
  10 paths, all from \<open>F\<close>, in non-increasing order of the number of these tokens that
  occur in the lower-cased path; for every score, the returned paths with that score
  are, in order, the first of the paths of \<open>F\<close> with that score.
\<close>

theorem selector_fallback:
  "(\<exists>ks. spec_split (toLowerCase D) ks) \<and>
   (\<forall>ks. spec_split (toLowerCase D) ks \<longrightarrow>
      length (searchCodebase D (Some F) None) \<le> 10 \<and>
      set (searchCodebase D (Some F) None) \<subseteq> set F \<and>
      sorted_wrt (\<lambda>a b. spec_overlap ks b \<le> spec_overlap ks a)
        (searchCodebase D (Some F) None) \<and>
      (\<forall>n. prefix (filter (\<lambda>f. spec_overlap ks f = n) (searchCodebase D (Some F) None))
                 (filter (\<lambda>f. spec_overlap ks f = n) F)))"
proof (intro conjI allI impI)
  show "\<exists>ks. spec_split (toLowerCase D) ks"
    using spec_split_exists by blast
next
  fix ks
  assume ks: "spec_split (toLowerCase D) ks"
  let ?sc = "spec_overlap ks"
  let ?pairs = "map (\<lambda>f. (f, ?sc f)) F"
  let ?S = "sort_cmp byScoreDesc ?pairs"
  let ?T = "take 10 ?S"
  have R: "searchCodebase D (Some F) None = map fst ?T"
    by (simp add: searchCodebase_def keywordMatch_scored [OF ks])
  have inS: "\<And>p. p \<in> set ?S \<Longrightarrow> snd p = ?sc (fst p) \<and> fst p \<in> set F"
    by (auto simp: set_sort_cmp)
  have inT: "\<And>p. p \<in> set ?T \<Longrightarrow> snd p = ?sc (fst p) \<and> fst p \<in> set F"
    using inS by (blast dest: in_set_takeD)
  show "length (searchCodebase D (Some F) None) \<le> 10"
    unfolding R by simp
  show "set (searchCodebase D (Some F) None) \<subseteq> set F"
    unfolding R using inT by auto
  have "sorted_wrt (\<lambda>a b. snd b \<le> snd a) ?T"
    using desc_sort [of ?pairs] by (rule sorted_wrt_take)
  then have "sorted_wrt (\<lambda>a b. ?sc (fst b) \<le> ?sc (fst a)) ?T"
    by (rule sorted_wrt_mono_rel [rotated]) (simp add: inT)
  then show "sorted_wrt (\<lambda>a b. ?sc b \<le> ?sc a) (searchCodebase D (Some F) None)"
    unfolding R by (simp add: sorted_wrt_map)
  show "prefix (filter (\<lambda>f. ?sc f = n) (searchCodebase D (Some F) None))
          (filter (\<lambda>f. ?sc f = n) F)" for n
  proof -
    have "filter (\<lambda>f. ?sc f = n) (map fst ?T) = map fst (filter (\<lambda>p. ?sc (fst p) = n) ?T)"
      by (simp add: filter_map comp_def)
    also have "filter (\<lambda>p. ?sc (fst p) = n) ?T = filter (\<lambda>p. snd p = n) ?T"
      by (rule filter_cong) (simp_all add: inT)
    finally have 1:
      "filter (\<lambda>f. ?sc f = n) (map fst ?T) = map fst (filter (\<lambda>p. snd p = n) ?T)" .
    have "filter (\<lambda>p. snd p = n) ?S = filter (\<lambda>p. snd p = n) ?pairs"
      by (rule filter_sort_cmp)
    also have "\<dots> = map (\<lambda>f. (f, ?sc f)) (filter (\<lambda>f. ?sc f = n) F)"
      by (simp add: filter_map comp_def)
    finally have 2: "map fst (filter (\<lambda>p. snd p = n) ?S) = filter (\<lambda>f. ?sc f = n) F"
      by (simp add: comp_def)
    have "prefix (map fst (filter (\<lambda>p. snd p = n) ?T)) (map fst (filter (\<lambda>p. snd p = n) ?S))"
      by (intro map_mono_prefix prefix_filter_take)
    then show ?thesis unfolding R by (simp only: 1 2)
  qed
qed

lemma selector_login:
  "searchCodebase (description submission_login) (Some files_login) None =
     [''/app/src/ui/LoginButton.tsx'', ''/app/src/ui/Button.tsx'',
      ''/app/src/Login.jsx'', ''/app/package.json'', ''/app/src/hooks/useClick.ts'',
      ''/app/src/ui/icon.tsx'', ''/app/src/index.js'', ''/app/src/api/client.ts'',
      ''/app/src/App.jsx'', ''/app/src/ui/Form.jsx'']"
  by code_simp

lemma split_login:
  "splitWhitespace (toLowerCase (description submission_login)) = keywords_login"
  by code_simp

lemma overlap_one_login:
  "filter (\<lambda>f. spec_overlap keywords_login f = 1) files_login =
     [''/app/src/Login.jsx'', ''/app/package.json'', ''/app/src/hooks/useClick.ts'',
      ''/app/src/ui/icon.tsx'']"
  by code_simp

theorem selector_fallback_witness:
  "spec_split (toLowerCase (description submission_login)) keywords_login \<and>
   length (searchCodebase (description submission_login) (Some files_login) None) = 10 \<and>
   set (searchCodebase (description submission_login) (Some files_login) None)
     \<subseteq> set files_login \<and>
   prefix
     (filter (\<lambda>f. spec_overlap keywords_login f = 1)
        (searchCodebase (description submission_login) (Some files_login) None))
     [''/app/src/Login.jsx'', ''/app/package.json'', ''/app/src/hooks/useClick.ts'',
      ''/app/src/ui/icon.tsx'']"
proof -
  note fallback = selector_fallback [of "description submission_login" files_login]
  have ks: "spec_split (toLowerCase (description submission_login)) keywords_login"
    using spec_split_exists [of "toLowerCase (description submission_login)"]
    by (simp only: split_login)
  from fallback ks
  have sub: "set (searchCodebase (description submission_login) (Some files_login) None)
               \<subseteq> set files_login"
    by blast
  from fallback ks
  have "prefix
          (filter (\<lambda>f. spec_overlap keywords_login f = 1)
             (searchCodebase (description submission_login) (Some files_login) None))
          (filter (\<lambda>f. spec_overlap keywords_login f = 1) files_login)"
    by blast
  then have ties: "prefix
          (filter (\<lambda>f. spec_overlap keywords_login f = 1)
             (searchCodebase (description submission_login) (Some files_login) None))
          [''/app/src/Login.jsx'', ''/app/package.json'', ''/app/src/hooks/useClick.ts'',
           ''/app/src/ui/icon.tsx'']"
    by (simp only: overlap_one_login)
  have len: "length (searchCodebase (description submission_login) (Some files_login) None) = 10"
    by (simp add: selector_login)
  show ?thesis using ks sub ties len by blast
qed

section \<open>Properties of the markdown renderer\<close>

lemma matchAt_sep: "matchAt s = Some m \<Longrightarrow> \<exists>c \<in> set s. isSep c"
  by (cases s) (auto simp: matchAt_def split: if_splits)

lemma matchPath_sep: "matchPath s = Some m \<Longrightarrow> \<exists>c \<in> set s. isSep c"
proof (induction s)
  case Nil
  then show ?case by simp
next
  case (Cons c s)
  show ?case
  proof (cases "matchAt (c # s)")
    case None
    with Cons show ?thesis by auto
  next
    case (Some a)
    then show ?thesis by (rule matchAt_sep)
  qed
qed

lemma has_sep:
  "(str_includes item ''/'' \<or> str_includes item [CHR 0x5C]) \<longleftrightarrow> (\<exists>c \<in> set item. isSep c)"
  by (auto simp: str_includes_char isSep_def)

lemma extract_Nil: "extractFilePaths [] = []"
  by (simp add: extractFilePaths_def)

text \<open>Every evidence entry contributes its own match, whatever the entries before it.\<close>

lemma extract_Cons:
  "extractFilePaths (e # ev) =
     (case matchPath e of Some p \<Rightarrow> p # extractFilePaths ev | None \<Rightarrow> extractFilePaths ev)"
proof (cases "matchPath e")
  case None
  then show ?thesis by (simp add: extractFilePaths_def)
next
  case (Some p)
  then have "str_includes e ''/'' \<or> str_includes e [CHR 0x5C]"
    unfolding has_sep by (rule matchPath_sep)
  with Some show ?thesis by (simp add: extractFilePaths_def)
qed

lemma extract_count:
  "count_list (extractFilePaths ev) p = length (filter (\<lambda>e. matchPath e = Some p) ev)"
  by (induction ev) (simp_all add: extract_Cons extract_Nil split: option.splits)

lemma sublist_filesSection:
  "fs \<noteq> [] \<Longrightarrow>
   sublist (''## Files Involved'' @ newline @
            join newline (map (\<lambda>file. ''- `'' @ file @ ''`'') fs))
     (filesSection fs)"
  unfolding filesSection_def
  by (simp add: sublist_def) (metis append.assoc)

lemma sublist_markdown:
  "sublist (filesSection (extractFilePaths (evidence r))) (generateMarkdownReport r)"
  unfolding generateMarkdownReport_def Let_def sublist_def
  by (metis append.assoc)

text \<open>
  C5. The markdown is a function of the report's title, root cause, evidence and next
  steps alone: two reports that agree on these render to the same string, and no
  store, clock or network outcome is an argument of the renderer. The extracted path
  list has every path as often as there are evidence entries whose match it is, so
  duplicates are kept, and when it is not empty the markdown contains the Files
  Involved heading followed by one line for each of its elements.
\<close>

theorem markdown_deterministic_no_dedupe:
  "(title r' = title r \<and> suspected_root_cause r' = suspected_root_cause r \<and>
    evidence r' = evidence r \<and> next_steps r' = next_steps r \<longrightarrow>
    generateMarkdownReport r' = generateMarkdownReport r) \<and>
   (\<forall>p. count_list (extractFilePaths (evidence r)) p =
        length (filter (\<lambda>e. matchPath e = Some p) (evidence r))) \<and>
   (extractFilePaths (evidence r) \<noteq> [] \<longrightarrow>
      sublist (''## Files Involved'' @ newline @
               join newline
                 (map (\<lambda>file. ''- `'' @ file @ ''`'') (extractFilePaths (evidence r))))
        (generateMarkdownReport r))"
proof -
  have "generateMarkdownReport r' = generateMarkdownReport r"
    if "title r' = title r" "suspected_root_cause r' = suspected_root_cause r"
      "evidence r' = evidence r" "next_steps r' = next_steps r"
    using that by (simp add: generateMarkdownReport_def)
  moreover have "sublist (''## Files Involved'' @ newline @
               join newline
                 (map (\<lambda>file. ''- `'' @ file @ ''`'') (extractFilePaths (evidence r))))
        (generateMarkdownReport r)"
    if "extractFilePaths (evidence r) \<noteq> []"
    using sublist_filesSection [OF that] sublist_markdown [of r]
    by (rule sublist_order.order_trans)
  ultimately show ?thesis by (simp add: extract_count)
qed

lemma extract_report_duplicate:
  "extractFilePaths (evidence report_duplicate) =
     [''/auth/login.js'', CHR 0x5C # ''app'' @ CHR 0x5C # ''Form.js'', ''/auth/login.js'']"
  by code_simp

theorem markdown_deterministic_no_dedupe_witness:
  "generateMarkdownReport
     (report_duplicate\<lparr>created_at := Some ''2024-05-01T10:00:00.000Z''\<rparr>) =
     generateMarkdownReport report_duplicate \<and>
   length (filter (\<lambda>e. matchPath e = Some ''/auth/login.js'') (evidence report_duplicate)) = 2 \<and>
   sublist (''## Files Involved'' @ newline @
            ''- `/auth/login.js`'' @ newline @
            ''- `'' @ CHR 0x5C # ''app'' @ CHR 0x5C # ''Form.js`'' @ newline @
            ''- `/auth/login.js`'')
     (generateMarkdownReport report_duplicate)"
proof -
  note md = markdown_deterministic_no_dedupe
    [of "report_duplicate\<lparr>created_at := Some ''2024-05-01T10:00:00.000Z''\<rparr>"
        report_duplicate]
  from md have same: "generateMarkdownReport
     (report_duplicate\<lparr>created_at := Some ''2024-05-01T10:00:00.000Z''\<rparr>) =
     generateMarkdownReport report_duplicate"
    by simp
  from md have "count_list (extractFilePaths (evidence report_duplicate)) ''/auth/login.js'' =
      length (filter (\<lambda>e. matchPath e = Some ''/auth/login.js'') (evidence report_duplicate))"
    by blast
  then have twice:
    "length (filter (\<lambda>e. matchPath e = Some ''/auth/login.js'') (evidence report_duplicate)) = 2"
    by (simp add: extract_report_duplicate)
  from md have "sublist (''## Files Involved'' @ newline @
               join newline
                 (map (\<lambda>file. ''- `'' @ file @ ''`'')
                    (extractFilePaths (evidence report_duplicate))))
        (generateMarkdownReport report_duplicate)"
    by (simp add: extract_report_duplicate)
  then have files: "sublist (''## Files Involved'' @ newline @
            ''- `/auth/login.js`'' @ newline @
            ''- `'' @ CHR 0x5C # ''app'' @ CHR 0x5C # ''Form.js`'' @ newline @
            ''- `/auth/login.js`'')
     (generateMarkdownReport report_duplicate)"
    by (simp add: extract_report_duplicate)
  show ?thesis using same twice files by blast
qed

section \<open>Properties of the report store\<close>

lemma store_null_report:
  "storeBugReport e s None md li ud files shots =
     (Inl (TypeError ''Cannot read properties of null (reading title)''), s)"
  by (simp add: storeBugReport_def storeTry_def)

lemma store_null_user:
  "storeBugReport e s (Some reportJson) md li None files shots =
     (Inr (fallbackReportOf e (reportJson\<lparr>created_at := Some (now_iso e)\<rparr>) md files shots),
      s\<lparr>inMemoryReports := (inMemoryReports s)
          (report_id (fallbackReportOf e (reportJson\<lparr>created_at := Some (now_iso e)\<rparr>) md files shots)
             \<mapsto> fallbackReportOf e (reportJson\<lparr>created_at := Some (now_iso e)\<rparr>) md files shots)\<rparr>)"
  by (simp add: storeBugReport_def storeTry_def Let_def)

lemma store_user:
  "storeBugReport e s (Some reportJson) md li (Some u) files shots =
     (let rd = reportDataOf e (reportJson\<lparr>created_at := Some (now_iso e)\<rparr>) md li u files shots
      in case remoteInsert e s rd of
           (Some data, s') \<Rightarrow> (Inr data, s')
         | (None, s') \<Rightarrow>
             (Inr rd, s'\<lparr>inMemoryReports := (inMemoryReports s')(report_id rd \<mapsto> rd)\<rparr>))"
  by (simp add: storeBugReport_def storeTry_def Let_def split: prod.splits option.splits)

lemma remoteInsert_cases:
  "(remoteInsert e s r = (None, s)) \<or>
   (\<exists>tbl. supabase s = Some tbl \<and> write_ok e \<and>
      remoteInsert e s r = (Some r, s\<lparr>supabase := Some (tbl(report_id r \<mapsto> r))\<rparr>))"
  by (simp add: remoteInsert_def split: option.splits)

lemma fallback_id: "prefix ''fallback-'' (report_id (fallbackReportOf e j md files shots))"
  by (simp add: fallbackReportOf_def)

lemma store_one_eq:
  "store_one = store_empty\<lparr>inMemoryReports := [report_id record_login \<mapsto> record_login]\<rparr>"
  by (simp add: store_one_def store_user remoteInsert_def store_empty_def record_login_def Let_def)

lemma record_login_id: "report_id record_login \<noteq> []"
  by (simp add: record_login_def reportDataOf_def)

lemma record_login_status: "status record_login = Some ''open''"
  by (simp add: record_login_def reportDataOf_def reporter_def truthy_def)

text \<open>\<open>currentReport\<close> is what \<open>getBugReport\<close> answers while the remote read succeeds.\<close>

lemma getBugReport_current:
  "reportId \<noteq> [] \<Longrightarrow> select_ok e \<Longrightarrow>
   getBugReport e s reportId =
     (case currentReport s reportId of
        Some r \<Rightarrow> (Inr r, s)
      | None \<Rightarrow> (Inl (Error ''Bug report not found''), s))"
  by (simp add: getBugReport_def remoteSelect_def currentReport_def split: option.splits)

subsection \<open>Confirming an unknown report\<close>

lemma confirm_empty_id:
  "confirmBugReport e ticket s [] = (Inl (Error ''Report ID is required''), s)"
  by (simp add: confirmBugReport_def)

text \<open>
  The claim C6 as worded fails for the empty identity, which is in no store: the guard
  at the head of \<open>confirmBugReport\<close> raises another message.
\<close>

theorem confirm_empty_id_counterexample:
  "confirmBugReport env_up None store_empty [] =
     (Inl (Error ''Report ID is required''), store_empty)"
  by (simp add: confirmBugReport_def)

text \<open>
  C6, as the code has it. For a non-empty report identity that is neither in the
  in-process map nor in the remote table, \<open>confirmBugReport\<close> raises
  \<open>Bug report not found\<close> and leaves both stores as they were, whatever the remote
  store and the tracker answer.
\<close>

theorem confirm_unknown_report:
  "reportId \<noteq> [] \<Longrightarrow> inMemoryReports s reportId = None \<Longrightarrow>
   (\<forall>tbl. supabase s = Some tbl \<longrightarrow> tbl reportId = None) \<Longrightarrow>
   confirmBugReport e ticket s reportId = (Inl (Error ''Bug report not found''), s)"
  by (auto simp: confirmBugReport_def remoteSelect_def split: option.splits)

theorem confirm_unknown_report_witness:
  "confirmBugReport env_up None store_one ''missing'' =
     (Inl (Error ''Bug report not found''), store_one)"
proof -
  have "report_id record_login \<noteq> ''missing''"
    by (simp add: record_login_def reportDataOf_def)
  then have "inMemoryReports store_one ''missing'' = None"
    and "\<forall>tbl. supabase store_one = Some tbl \<longrightarrow> tbl ''missing'' = None"
    by (simp_all add: store_one_eq store_empty_def)
  then show ?thesis
    by (intro confirm_unknown_report) simp_all
qed

subsection \<open>Storing\<close>

text \<open>
  The claim C7 as worded fails for a null report: the \<open>try\<close> block throws on its first
  statement and the \<open>catch\<close> block throws on reading the report's title, so the call
  raises and nothing is stored.
\<close>

theorem store_null_report_counterexample:
  "storeBugReport env_up store_empty None (generateMarkdownReport report_specific) None
     (Some reporter) [] [] =
   (Inl (TypeError ''Cannot read properties of null (reading title)''), store_empty)"
  by (simp add: storeBugReport_def storeTry_def)

text \<open>
  C7, as the code has it. For a report that is an object, \<open>storeBugReport\<close> never raises:
  it returns a record that is in the remote table or in the in-process map under its
  own identity. When no remote store is configured or the remote write fails, the
  record is in the in-process map. When the \<open>try\<close> block throws (a null \<open>userData\<close>), the
  record is the minimal one, its identity starts with \<open>fallback-\<close>, and it is in the
  in-process map.
\<close>

theorem store_never_raises:
  "\<exists>r s'. storeBugReport e s (Some reportJson) md li ud files shots = (Inr r, s') \<and>
     persisted s' r \<and>
     (supabase s = None \<or> \<not> write_ok e \<longrightarrow> inMemoryReports s' (report_id r) = Some r) \<and>
     (ud = None \<longrightarrow>
        prefix ''fallback-'' (report_id r) \<and> inMemoryReports s' (report_id r) = Some r)"
proof (cases ud)
  case None
  then show ?thesis
    by (simp add: store_null_user persisted_def fallback_id)
next
  case (Some u)
  let ?rd = "reportDataOf e (reportJson\<lparr>created_at := Some (now_iso e)\<rparr>) md li u files shots"
  from remoteInsert_cases [of e s ?rd] show ?thesis
  proof
    assume "remoteInsert e s ?rd = (None, s)"
    then show ?thesis using Some by (simp add: store_user persisted_def Let_def)
  next
    assume "\<exists>tbl. supabase s = Some tbl \<and> write_ok e \<and>
      remoteInsert e s ?rd = (Some ?rd, s\<lparr>supabase := Some (tbl(report_id ?rd \<mapsto> ?rd))\<rparr>)"
    then show ?thesis using Some by (auto simp add: store_user persisted_def Let_def)
  qed
qed

theorem store_never_raises_witness:
  "\<exists>r s'. storeBugReport env_down store_remote_empty (Some report_specific)
             (generateMarkdownReport report_specific) None None [] [] = (Inr r, s') \<and>
     prefix ''fallback-'' (report_id r) \<and> inMemoryReports s' (report_id r) = Some r"
  using store_never_raises [of env_down store_remote_empty report_specific
      "generateMarkdownReport report_specific" None None "[]" "[]"]
  by auto

subsection \<open>Submitting additional information\<close>




lemma submit_write_fails:
  "reportId \<noteq> [] \<Longrightarrow> responses \<noteq> [] \<Longrightarrow> supabase s = Some tbl \<Longrightarrow> select_ok e \<Longrightarrow>
   \<not> write_ok e \<Longrightarrow> tbl reportId = Some r \<Longrightarrow>
   submitAdditionalInfo e s reportId responses =
     (Inr \<lparr>message = ''Additional information submitted successfully'',
           submit_id = report_id r\<rparr>,
      s\<lparr>inMemoryReports := (inMemoryReports s)(reportId \<mapsto> withInfo e responses r)\<rparr>)"
  by (simp add: submitAdditionalInfo_def withInfo_def remoteSelect_def remoteUpdate_def)

text \<open>What a submission writes, for every outcome of the remote calls.\<close>

lemma submit_written:
  assumes "reportId \<noteq> []" "responses \<noteq> []" "recordRead e s reportId = Some r"
  shows "submitAdditionalInfo e s reportId responses =
     (Inr \<lparr>message = ''Additional information submitted successfully'',
           submit_id = report_id r\<rparr>,
      if remoteSelect e s reportId \<noteq> None \<and> write_ok e
      then s\<lparr>supabase :=
               map_option (\<lambda>tbl. tbl(reportId \<mapsto> withInfo e responses r)) (supabase s)\<rparr>
      else s\<lparr>inMemoryReports := (inMemoryReports s)(reportId \<mapsto> withInfo e responses r)\<rparr>)"
  using assms
  by (auto simp: submitAdditionalInfo_def remoteSelect_def remoteUpdate_def recordRead_def
      withInfo_def Let_def split: option.splits if_splits)

lemma submit_remote_status:
  "submitAdditionalInfo e s reportId responses = (res, s') \<Longrightarrow>
   map_option status (remoteRow s' rid) = map_option status (remoteRow s rid)"
  by (auto simp: submitAdditionalInfo_def remoteSelect_def remoteUpdate_def remoteRow_def
      Let_def split: option.splits if_splits)

lemma submit_memory_status:
  "submitAdditionalInfo e s reportId responses = (res, s') \<Longrightarrow>
   map_option status (inMemoryReports s' rid) = map_option status (inMemoryReports s rid) \<or>
   (rid = reportId \<and> \<not> write_ok e \<and>
    (\<exists>row. remoteSelect e s reportId = Some row \<and>
       inMemoryReports s' reportId = Some (withInfo e responses row)))"
  by (auto simp: submitAdditionalInfo_def remoteSelect_def remoteUpdate_def withInfo_def
      Let_def split: option.splits if_splits)

lemma confirm_remote_status:
  "confirmBugReport e ticket s reportId = (res, s') \<Longrightarrow>
   map_option status (remoteRow s' rid) = map_option status (remoteRow s rid) \<or>
   map_option status (remoteRow s' rid) = Some (Some ''confirmed'')"
  by (auto simp: confirmBugReport_def remoteSelect_def remoteUpdate_def remoteRow_def
      Let_def split: option.splits if_splits)

lemma confirm_memory_status:
  "confirmBugReport e ticket s reportId = (res, s') \<Longrightarrow>
   map_option status (inMemoryReports s' rid) = map_option status (inMemoryReports s rid) \<or>
   map_option status (inMemoryReports s' rid) = Some (Some ''confirmed'')"
  by (auto simp: confirmBugReport_def remoteSelect_def remoteUpdate_def
      Let_def split: option.splits if_splits)

lemma store_status:
  "\<exists>r s'. storeBugReport e s (Some reportJson) md li ud files shots = (Inr r, s') \<and>
     status r =
       (case ud of
          None \<Rightarrow> None
        | Some u \<Rightarrow> if truthy (email u) then Some ''open'' else None)"
proof (cases ud)
  case None
  then show ?thesis by (simp add: store_null_user fallbackReportOf_def)
next
  case (Some u)
  let ?rd = "reportDataOf e (reportJson\<lparr>created_at := Some (now_iso e)\<rparr>) md li u files shots"
  have "status ?rd = (if truthy (email u) then Some ''open'' else None)"
    by (simp add: reportDataOf_def)
  with remoteInsert_cases [of e s ?rd] Some show ?thesis
    by (auto simp: store_user Let_def)
qed

lemma withInfo_status: "status (withInfo e responses r) = status r"
  by (simp add: withInfo_def)

lemma withInfo_feedback: "feedback_requested (withInfo e responses r) = Some False"
  by (simp add: withInfo_def)

text \<open>The three calls whose remote write fails, one after the other.\<close>

lemma store_after_submit_eq:
  "store_after_submit =
     store_remote_one\<lparr>inMemoryReports :=
       [report_id record_login \<mapsto>
          withInfo env_write_fails [(''environment'', ''Firefox on Linux'')] record_login]\<rparr>"
proof -
  have "submitAdditionalInfo env_write_fails store_remote_one (report_id record_login)
          [(''environment'', ''Firefox on Linux'')] =
      (Inr \<lparr>message = ''Additional information submitted successfully'',
            submit_id = report_id record_login\<rparr>,
       store_remote_one\<lparr>inMemoryReports :=
         (inMemoryReports store_remote_one)
           (report_id record_login \<mapsto>
              withInfo env_write_fails [(''environment'', ''Firefox on Linux'')] record_login)\<rparr>)"
    by (rule submit_write_fails [where tbl = "[report_id record_login \<mapsto> record_login]"])
      (simp_all add: record_login_id store_remote_one_def env_write_fails_def)
  then show ?thesis by (simp add: store_after_submit_def store_remote_one_def)
qed

lemma store_after_confirm_facts:
  "supabase store_after_confirm = Some [report_id record_login \<mapsto> record_login]"
  "map_option status (inMemoryReports store_after_confirm (report_id record_login)) =
     Some (Some ''confirmed'')"
  using record_login_id
  by (simp_all add: store_after_confirm_def store_after_submit_eq confirmBugReport_def
      remoteSelect_def remoteUpdate_def store_remote_one_def env_write_fails_def)

lemma store_after_resubmit_eq:
  "store_after_resubmit =
     store_after_confirm\<lparr>inMemoryReports :=
       (inMemoryReports store_after_confirm)
         (report_id record_login \<mapsto>
            withInfo env_write_fails [(''version'', ''2.1'')] record_login)\<rparr>"
proof -
  have "submitAdditionalInfo env_write_fails store_after_confirm (report_id record_login)
          [(''version'', ''2.1'')] =
      (Inr \<lparr>message = ''Additional information submitted successfully'',
            submit_id = report_id record_login\<rparr>,
       store_after_confirm\<lparr>inMemoryReports :=
         (inMemoryReports store_after_confirm)
           (report_id record_login \<mapsto>
              withInfo env_write_fails [(''version'', ''2.1'')] record_login)\<rparr>)"
    by (rule submit_write_fails [where tbl = "[report_id record_login \<mapsto> record_login]"])
      (simp_all add: record_login_id store_after_confirm_facts env_write_fails_def)
  then show ?thesis by (simp add: store_after_resubmit_def)
qed

text \<open>
  The claim C8 as worded fails twice. A record stored without a reporter email has no
  status. And a submission can change the status of the in-process record: when the
  remote store holds the report and its writes fail, a submission copies the remote row
  into the in-process map, a confirmation sets that copy to \<open>confirmed\<close>, and the next
  submission overwrites it with a fresh copy of the remote row, still \<open>open\<close>; a reader
  whose remote read fails sees \<open>confirmed\<close> before that submission and \<open>open\<close> after it.
\<close>

theorem status_counterexample:
  "map_sum id status
     (fst (storeBugReport env_up store_empty (Some report_specific)
             (generateMarkdownReport report_specific) None (Some anonymous) [] [])) =
   Inr None \<and>
   map_sum id status (fst (getBugReport env_down store_after_confirm (report_id record_login))) =
   Inr (Some ''confirmed'') \<and>
   map_sum id status (fst (getBugReport env_down store_after_resubmit (report_id record_login))) =
   Inr (Some ''open'')"
proof -
  have 1: "map_sum id status
     (fst (storeBugReport env_up store_empty (Some report_specific)
             (generateMarkdownReport report_specific) None (Some anonymous) [] [])) =
   Inr None"
    by (simp add: store_user remoteInsert_def store_empty_def reportDataOf_def anonymous_def
        truthy_def Let_def)
  have down: "remoteSelect env_down s (report_id record_login) = None" for s
    by (simp add: remoteSelect_def env_down_def split: option.splits)
  obtain m where m: "inMemoryReports store_after_confirm (report_id record_login) = Some m"
    "status m = Some ''confirmed''"
    using store_after_confirm_facts(2) by auto
  have 2: "map_sum id status
      (fst (getBugReport env_down store_after_confirm (report_id record_login))) =
      Inr (Some ''confirmed'')"
    using record_login_id by (simp add: getBugReport_def down m)
  have 3: "map_sum id status
      (fst (getBugReport env_down store_after_resubmit (report_id record_login))) =
      Inr (Some ''open'')"
    using record_login_id
    by (simp add: getBugReport_def down store_after_resubmit_eq withInfo_status
        record_login_status)
  from 1 2 3 show ?thesis by blast
qed

text \<open>
  C8, as the code has it. (1) The record \<open>storeBugReport\<close> returns for a report object
  has status \<open>open\<close> when a non-empty reporter email is given and no status otherwise.
  (2) Whatever the remote store does, \<open>submitAdditionalInfo\<close> leaves the status of every
  row of the remote table as it was, and leaves the status of every in-process record
  as it was unless it read the remote row of this report and the remote write failed:
  then the in-process record of this report becomes the updated copy of that row.
  (3) A submission that finds the report writes back, to the remote table when the
  remote read and write succeed and to the in-process map otherwise, the record it
  read with \<open>additional_info\<close> merged, \<open>feedback_requested\<close> false and \<open>last_updated\<close> set;
  the status of that record is the status of the record read. (4) Whatever the remote
  store does, \<open>confirmBugReport\<close> leaves every status in either store as it was or sets
  it to \<open>confirmed\<close>.
\<close>

theorem status_lifecycle:
  "(\<exists>r s'. storeBugReport e s (Some reportJson) md li ud files shots = (Inr r, s') \<and>
      status r =
        (case ud of
           None \<Rightarrow> None
         | Some u \<Rightarrow> if truthy (email u) then Some ''open'' else None)) \<and>
   (\<forall>res s' rid. submitAdditionalInfo e s reportId responses = (res, s') \<longrightarrow>
      map_option status (remoteRow s' rid) = map_option status (remoteRow s rid) \<and>
      (map_option status (inMemoryReports s' rid) = map_option status (inMemoryReports s rid) \<or>
       (rid = reportId \<and> \<not> write_ok e \<and>
        (\<exists>row. remoteSelect e s reportId = Some row \<and>
           inMemoryReports s' reportId = Some (withInfo e responses row))))) \<and>
   (\<forall>r. reportId \<noteq> [] \<and> responses \<noteq> [] \<and> recordRead e s reportId = Some r \<longrightarrow>
      submitAdditionalInfo e s reportId responses =
        (Inr \<lparr>message = ''Additional information submitted successfully'',
              submit_id = report_id r\<rparr>,
         if remoteSelect e s reportId \<noteq> None \<and> write_ok e
         then s\<lparr>supabase :=
                  map_option (\<lambda>tbl. tbl(reportId \<mapsto> withInfo e responses r)) (supabase s)\<rparr>
         else s\<lparr>inMemoryReports := (inMemoryReports s)(reportId \<mapsto> withInfo e responses r)\<rparr>) \<and>
      withInfo e responses r =
        r\<lparr>content_json :=
            (content_json r)
              \<lparr>additional_info :=
                 Some (mergeInfo (additional_info (content_json r)) responses (now_iso e))\<rparr>,
          feedback_requested := Some False,
          last_updated := Some (now_iso e)\<rparr> \<and>
      status (withInfo e responses r) = status r) \<and>
   (\<forall>res s' rid. confirmBugReport e ticket s reportId = (res, s') \<longrightarrow>
      (map_option status (remoteRow s' rid) = map_option status (remoteRow s rid) \<or>
       map_option status (remoteRow s' rid) = Some (Some ''confirmed'')) \<and>
      (map_option status (inMemoryReports s' rid) = map_option status (inMemoryReports s rid) \<or>
       map_option status (inMemoryReports s' rid) = Some (Some ''confirmed'')))"
proof (intro conjI allI impI)
  show "\<exists>r s'. storeBugReport e s (Some reportJson) md li ud files shots = (Inr r, s') \<and>
      status r =
        (case ud of
           None \<Rightarrow> None
         | Some u \<Rightarrow> if truthy (email u) then Some ''open'' else None)"
    by (rule store_status)
next
  fix res s' rid
  assume sub: "submitAdditionalInfo e s reportId responses = (res, s')"
  show "map_option status (remoteRow s' rid) = map_option status (remoteRow s rid)"
    using sub by (rule submit_remote_status)
  show "map_option status (inMemoryReports s' rid) = map_option status (inMemoryReports s rid) \<or>
       (rid = reportId \<and> \<not> write_ok e \<and>
        (\<exists>row. remoteSelect e s reportId = Some row \<and>
           inMemoryReports s' reportId = Some (withInfo e responses row)))"
    using sub by (rule submit_memory_status)
next
  fix r
  assume r: "reportId \<noteq> [] \<and> responses \<noteq> [] \<and> recordRead e s reportId = Some r"
  then show "submitAdditionalInfo e s reportId responses =
        (Inr \<lparr>message = ''Additional information submitted successfully'',
              submit_id = report_id r\<rparr>,
         if remoteSelect e s reportId \<noteq> None \<and> write_ok e
         then s\<lparr>supabase :=
                  map_option (\<lambda>tbl. tbl(reportId \<mapsto> withInfo e responses r)) (supabase s)\<rparr>
         else s\<lparr>inMemoryReports := (inMemoryReports s)(reportId \<mapsto> withInfo e responses r)\<rparr>)"
    by (intro submit_written) simp_all
  show "withInfo e responses r =
        r\<lparr>content_json :=
            (content_json r)
              \<lparr>additional_info :=
                 Some (mergeInfo (additional_info (content_json r)) responses (now_iso e))\<rparr>,
          feedback_requested := Some False,
          last_updated := Some (now_iso e)\<rparr>"
    by (simp add: withInfo_def updatedContentJson_def)
  show "status (withInfo e responses r) = status r"
    by (rule withInfo_status)
next
  fix res s' rid
  assume con: "confirmBugReport e ticket s reportId = (res, s')"
  show "map_option status (remoteRow s' rid) = map_option status (remoteRow s rid) \<or>
       map_option status (remoteRow s' rid) = Some (Some ''confirmed'')"
    using con by (rule confirm_remote_status)
  show "map_option status (inMemoryReports s' rid) = map_option status (inMemoryReports s rid) \<or>
       map_option status (inMemoryReports s' rid) = Some (Some ''confirmed'')"
    using con by (rule confirm_memory_status)
qed

lemma confirm_store_one:
  "\<exists>res s'. confirmBugReport env_up None store_one (report_id record_login) = (Inr res, s') \<and>
     map_option status (inMemoryReports s' (report_id record_login)) = Some (Some ''confirmed'')"
  using record_login_id
  by (simp add: confirmBugReport_def remoteSelect_def remoteUpdate_def store_one_eq
      store_empty_def)

theorem status_lifecycle_witness:
  "(\<exists>r s'. storeBugReport env_up store_empty (Some report_specific)
              (generateMarkdownReport report_specific) None (Some reporter) [] [] = (Inr r, s') \<and>
      status r = Some ''open'') \<and>
   (\<exists>res s'. submitAdditionalInfo env_up store_one (report_id record_login)
               [(''environment'', ''Firefox on Linux'')] = (Inr res, s') \<and>
      map_option status (inMemoryReports s' (report_id record_login)) = Some (Some ''open'') \<and>
      map_option feedback_requested (inMemoryReports s' (report_id record_login)) =
        Some (Some False)) \<and>
   (\<exists>res s'. confirmBugReport env_up None store_one (report_id record_login) = (Inr res, s') \<and>
      map_option status (inMemoryReports s' (report_id record_login)) = Some (Some ''confirmed''))"
proof -
  note life = status_lifecycle [where e = env_up and reportJson = report_specific
      and md = "generateMarkdownReport report_specific" and li = None
      and ud = "Some reporter" and files = "[]" and shots = "[]"
      and reportId = "report_id record_login"
      and responses = "[(''environment'', ''Firefox on Linux'')]" and ticket = None]
  have rd: "recordRead env_up store_one (report_id record_login) = Some record_login"
    by (simp add: recordRead_def remoteSelect_def store_one_eq store_empty_def)
  have nosel: "remoteSelect env_up store_one (report_id record_login) = None"
    by (simp add: remoteSelect_def store_one_eq store_empty_def)
  from life [where s = store_empty]
  have 1: "\<exists>r s'. storeBugReport env_up store_empty (Some report_specific)
              (generateMarkdownReport report_specific) None (Some reporter) [] [] = (Inr r, s') \<and>
      status r = Some ''open''"
    by (simp add: reporter_def truthy_def)
  from life [where s = store_one] record_login_id rd
  have "submitAdditionalInfo env_up store_one (report_id record_login)
               [(''environment'', ''Firefox on Linux'')] =
        (Inr \<lparr>message = ''Additional information submitted successfully'',
              submit_id = report_id record_login\<rparr>,
         store_one\<lparr>inMemoryReports := (inMemoryReports store_one)
            (report_id record_login \<mapsto>
               withInfo env_up [(''environment'', ''Firefox on Linux'')] record_login)\<rparr>)"
    by (simp add: nosel)
  then have 2: "\<exists>res s'. submitAdditionalInfo env_up store_one (report_id record_login)
               [(''environment'', ''Firefox on Linux'')] = (Inr res, s') \<and>
      map_option status (inMemoryReports s' (report_id record_login)) = Some (Some ''open'') \<and>
      map_option feedback_requested (inMemoryReports s' (report_id record_login)) =
        Some (Some False)"
    by (simp add: withInfo_status withInfo_feedback record_login_status)
  show ?thesis using 1 2 confirm_store_one by blast
qed

subsection \<open>Additional information accumulates\<close>


text \<open>Every submission sets the key \<open>submitted_at\<close> to its own time stamp.\<close>

lemma submitted_at_set:
  "additional_info (content_json (withInfo e responses r)) = Some m \<Longrightarrow>
   m ''submitted_at'' = Some (now_iso e)"
  by (auto simp: withInfo_def updatedContentJson_def mergeInfo_def)





end
